theory Spec2Isabelle
  imports Main
begin

section \<open>Python values, errors and in-memory buffers\<close>

text \<open>
  The adapter is Python 2 code: strings are byte strings, modelled as \<open>string\<close>.
  Every exception the adapter can raise is a constructor of \<open>error\<close>. Exceptions that
  are raised inside a library the adapter calls (base64, urlparse, cgi, ftplib, the hook
  dispatcher) carry the library's own description and are tagged by the library they come
  from, so that the adapter's own \<open>AuthError\<close> cannot be confused with any of them.
\<close>

type_synonym lib_exn = string

datatype error =
    AuthError string
  | IndexError
  | KeyError string
  | TypeError
  | ValueError
  | DecodeError lib_exn
  | UrlError lib_exn
  | MultipartError lib_exn
  | TransportError lib_exn
  | HookError lib_exn

text \<open>A dynamically typed attribute that may hold an integer or a string.\<close>

datatype pyval = PyInt int | PyStr string

text \<open>
  \<open>BytesIO\<close> and \<open>StringIO\<close>: the bytes written so far, the cursor, and whether the
  buffer has been closed. Writing or seeking on a closed buffer raises \<open>ValueError\<close>.
\<close>

record buffer =
  contents :: string
  pos :: nat
  closed :: bool

definition BytesIO :: buffer where
  "BytesIO = \<lparr>contents = [], pos = 0, closed = False\<rparr>"

definition StringIO :: buffer where
  "StringIO = \<lparr>contents = [], pos = 0, closed = False\<rparr>"

definition buffer_write :: "buffer \<Rightarrow> string \<Rightarrow> error + buffer" where
  "buffer_write buf s =
     (if closed buf then Inl ValueError
      else if s = [] then Inr buf
      else Inr (buf\<lparr>contents :=
                       take (pos buf) (contents buf)
                       @ replicate (pos buf - length (contents buf)) (CHR 0x00)
                       @ s
                       @ drop (pos buf + length s) (contents buf),
                     pos := pos buf + length s\<rparr>))"

definition buffer_seek :: "buffer \<Rightarrow> nat \<Rightarrow> error + buffer" where
  "buffer_seek buf n = (if closed buf then Inl ValueError else Inr (buf\<lparr>pos := n\<rparr>))"

section \<open>String operations\<close>

text \<open>
  \<open>str.split()\<close> without arguments splits at runs of whitespace and yields no empty
  token. For a byte string the whitespace characters are space and \<open>\t \n \v \f \r\<close>.
\<close>

definition is_space :: "char \<Rightarrow> bool" where
  "is_space c = (c = CHR '' '' \<or> c = CHR 0x09 \<or> c = CHR 0x0A \<or> c = CHR 0x0B
                 \<or> c = CHR 0x0C \<or> c = CHR 0x0D)"

definition non_space :: "char \<Rightarrow> bool" where
  "non_space c = (\<not> is_space c)"

function split_ws :: "string \<Rightarrow> string list" where
  "split_ws s =
     (case dropWhile is_space s of
        [] \<Rightarrow> []
      | c # cs \<Rightarrow> (c # takeWhile non_space cs) # split_ws (dropWhile non_space cs))"
  by pat_completeness auto
termination
proof (relation "measure length")
  show "wf (measure length)" by simp
next
  fix s :: string and c cs
  assume "dropWhile is_space s = c # cs"
  then have "length (c # cs) \<le> length s"
    by (metis length_dropWhile_le)
  moreover have "length (dropWhile non_space cs) \<le> length cs"
    by (rule length_dropWhile_le)
  ultimately show "(dropWhile non_space cs, s) \<in> measure length"
    by simp
qed

declare split_ws.simps [simp del]

text \<open>\<open>s.split(sep)\<close> for a one-character separator: every occurrence splits.\<close>

fun split_on :: "char \<Rightarrow> string \<Rightarrow> string list" where
  "split_on sep [] = [[]]"
| "split_on sep (c # cs) =
     (if c = sep then [] # split_on sep cs
      else (case split_on sep cs of
              [] \<Rightarrow> [[c]]
            | w # ws \<Rightarrow> (c # w) # ws))"

section \<open>Requests, responses and the libraries the adapter calls\<close>

text \<open>
  A \<open>PreparedRequest\<close>; its attribute \<open>method\<close> is the field \<open>req_method\<close>.
  The body is \<open>None\<close> when the request carries no data; the hook registry is opaque
  to the adapter, which only hands it to the hook dispatcher.
\<close>

record 'h prepared_request =
  req_method :: string
  url :: string
  headers :: "string \<rightharpoonup> string"
  body :: "string option"
  hooks :: 'h

text \<open>
  The attributes of a \<open>Response\<close> that \<open>build_response\<close> assigns. The encoding
  is \<open>None\<close> or a codec name; the status code is whatever value the adapter stores.
\<close>

record 'h response =
  encoding :: "string option"
  raw :: buffer
  response_url :: string
  request :: "'h prepared_request"
  status_code :: pyval

text \<open>
  What the adapter reads from the result of \<open>urlparse\<close>. The port is computed when the
  attribute is read, and reading it may raise.
\<close>

record parse_result =
  path :: string
  hostname :: "string option"
  port :: "lib_exn + int option"

text \<open>
  The calls made on one \<open>ftplib.FTP\<close> object, oldest first. \<open>Storbinary\<close> records
  the file object handed to the library as the data source.
\<close>

datatype event =
    Connect "string option" "int option" "int option"
  | Login string string
  | Cwd string
  | Retrbinary string
  | Storbinary string buffer
  | Close

type_synonym ftp_conn = "event list"

text \<open>
  The library functions the adapter calls are not part of the repository; they are
  parameters of the model. A library call that raises returns \<open>Inl\<close> with the library's
  description of the exception. Every \<open>ftplib\<close> operation is given the calls made on the
  connection before it, so the server's answer may depend on the session so far.
  \<open>ftp_retrbinary\<close> yields the chunks it hands to the callback and then either raises or
  returns the reply string. \<open>cgi_parse_multipart\<close> returns the parsed dictionary as an
  association list whose head is the item \<open>popitem\<close> removes.
\<close>

record 'h library =
  urlparse :: "string \<Rightarrow> lib_exn + parse_result"
  b64decode :: "string \<Rightarrow> lib_exn + string"
  cgi_parse_header :: "string \<Rightarrow> string \<times> (string \<times> string) list"
  cgi_parse_multipart ::
    "buffer \<Rightarrow> (string \<times> string) list \<Rightarrow> lib_exn + (string \<times> string list) list"
  os_path_split :: "string \<Rightarrow> string \<times> string"
  dispatch_hook :: "string \<Rightarrow> 'h \<Rightarrow> 'h response \<Rightarrow> lib_exn + 'h response"
  ftp_connect :: "ftp_conn \<Rightarrow> string option \<Rightarrow> int option \<Rightarrow> int option \<Rightarrow> lib_exn + string"
  ftp_login :: "ftp_conn \<Rightarrow> string \<Rightarrow> string \<Rightarrow> lib_exn + string"
  ftp_cwd :: "ftp_conn \<Rightarrow> string \<Rightarrow> lib_exn + string"
  ftp_retrbinary :: "ftp_conn \<Rightarrow> string \<Rightarrow> string list \<times> (lib_exn + string)"
  ftp_storbinary :: "ftp_conn \<Rightarrow> string \<Rightarrow> buffer \<Rightarrow> lib_exn + string"

section \<open>Module-level functions\<close>

text \<open>
  \<open>parse_multipart_files\<close>: reads the \<open>Content-Type\<close> header (a missing key raises),
  writes the body into a fresh buffer and rewinds it, lets \<open>cgi\<close> parse it, pops one item
  off the result (an empty dictionary raises), and returns a fresh rewound buffer holding
  the joined file data. The first buffer is closed and dropped after parsing, which
  changes nothing in the result.
\<close>

definition parse_multipart_files :: "'h library \<Rightarrow> 'h prepared_request \<Rightarrow> error + buffer" where
  "parse_multipart_files lib req =
     (case headers req ''Content-Type'' of
        None \<Rightarrow> Inl (KeyError ''Content-Type'')
      | Some content_type \<Rightarrow>
          (let pdict = snd (cgi_parse_header lib content_type) in
           case body req of
             None \<Rightarrow> Inl TypeError
           | Some b \<Rightarrow>
               (case buffer_write BytesIO b of
                  Inl e \<Rightarrow> Inl e
                | Inr buf1 \<Rightarrow>
                    (case buffer_seek buf1 0 of
                       Inl e \<Rightarrow> Inl e
                     | Inr buf2 \<Rightarrow>
                         (case cgi_parse_multipart lib buf2 pdict of
                            Inl e \<Rightarrow> Inl (MultipartError e)
                          | Inr [] \<Rightarrow> Inl (KeyError ''popitem'')
                          | Inr ((name, filedata) # others) \<Rightarrow>
                              (case buffer_write BytesIO (concat filedata) of
                                 Inl e \<Rightarrow> Inl e
                               | Inr buf3 \<Rightarrow> buffer_seek buf3 0))))))"

text \<open>
  The callback closes over a file-like variable and writes each chunk into it; the model
  returns the updated variable.
\<close>

definition data_callback_factory :: "buffer \<Rightarrow> string \<Rightarrow> error + buffer" where
  "data_callback_factory variable data = buffer_write variable data"

text \<open>
  \<open>build_response\<close>: the status code is the first element of \<open>code.split()\<close>, which
  raises \<open>IndexError\<close> when the reply has no token; then the raw buffer is rewound; then
  the response goes through the hook dispatcher and the dispatcher's result is returned.
\<close>

definition build_response ::
  "'h library \<Rightarrow> 'h prepared_request \<Rightarrow> buffer \<Rightarrow> string \<Rightarrow> string option \<Rightarrow> error + 'h response" where
  "build_response lib req data code enc =
     (case split_ws code of
        [] \<Rightarrow> Inl IndexError
      | tok # rest \<Rightarrow>
          (case buffer_seek data 0 of
             Inl e \<Rightarrow> Inl e
           | Inr data' \<Rightarrow>
               (case dispatch_hook lib ''response'' (hooks req)
                       \<lparr>encoding = enc, raw = data', response_url = url req,
                        request = req, status_code = PyStr tok\<rparr> of
                  Inl e \<Rightarrow> Inl (HookError e)
                | Inr resp \<Rightarrow> Inr resp)))"

definition build_text_response ::
  "'h library \<Rightarrow> 'h prepared_request \<Rightarrow> buffer \<Rightarrow> string \<Rightarrow> error + 'h response" where
  "build_text_response lib req data code = build_response lib req data code (Some ''ascii'')"

definition build_binary_response ::
  "'h library \<Rightarrow> 'h prepared_request \<Rightarrow> buffer \<Rightarrow> string \<Rightarrow> error + 'h response" where
  "build_binary_response lib req data code = build_response lib req data code None"

section \<open>Credential and endpoint extraction\<close>

text \<open>
  \<open>get_username_password_from_header\<close>: a missing or empty header gives \<open>None\<close>.
  Otherwise the first two whitespace-separated tokens are taken; element 0 is compared
  with \<open>Basic\<close> (an empty token list raises \<open>IndexError\<close> there), element 1 is decoded
  (a missing one raises \<open>IndexError\<close>), the decoded string is split at every colon and
  elements 0 and 1 of that split are returned.
\<close>

definition get_username_password_from_header ::
  "'h library \<Rightarrow> 'h prepared_request \<Rightarrow> error + (string \<times> string) option" where
  "get_username_password_from_header lib req =
     (case headers req ''Authorization'' of
        None \<Rightarrow> Inr None
      | Some auth_header \<Rightarrow>
          if auth_header = [] then Inr None
          else
            (case take 2 (split_ws auth_header) of
               [] \<Rightarrow> Inl IndexError
             | scheme # components \<Rightarrow>
                 if scheme \<noteq> ''Basic'' then Inl (AuthError ''Invalid form of Authentication used.'')
                 else
                   (case components of
                      [] \<Rightarrow> Inl IndexError
                    | encoded # _ \<Rightarrow>
                        (case b64decode lib encoded of
                           Inl e \<Rightarrow> Inl (DecodeError e)
                         | Inr decoded \<Rightarrow>
                             (case split_on (CHR '':'') decoded of
                                username # password # _ \<Rightarrow> Inr (Some (username, password))
                              | _ \<Rightarrow> Inl IndexError)))))"

text \<open>
  \<open>get_host_and_path_from_url\<close>: \<open>path[0]\<close> raises \<open>IndexError\<close> on an empty path; a
  leading slash is dropped once; the host name and the port are read afterwards.
\<close>

definition get_host_and_path_from_url ::
  "'h library \<Rightarrow> 'h prepared_request \<Rightarrow> error + (string option \<times> int option \<times> string)" where
  "get_host_and_path_from_url lib req =
     (case urlparse lib (url req) of
        Inl e \<Rightarrow> Inl (UrlError e)
      | Inr parsed \<Rightarrow>
          (case path parsed of
             [] \<Rightarrow> Inl IndexError
           | c # cs \<Rightarrow>
               (let p = (if c = CHR ''/'' then cs else c # cs);
                    host = hostname parsed
                in case port parsed of
                     Inl e \<Rightarrow> Inl (UrlError e)
                   | Inr prt \<Rightarrow> Inr (host, prt, p))))"

section \<open>The FTP connection\<close>

text \<open>
  Each method of the connection object appends the call to the log and returns what the
  library returns; an exception raised by \<open>ftplib\<close> surfaces as \<open>TransportError\<close>.
  \<open>retrbinary\<close> runs the callback on every chunk in turn, threading the callback's
  variable; an exception raised by the callback leaves through \<open>retrbinary\<close>.
\<close>

definition conn_connect ::
  "'h library \<Rightarrow> ftp_conn \<Rightarrow> string option \<Rightarrow> int option \<Rightarrow> int option
     \<Rightarrow> ftp_conn \<times> (error + string)" where
  "conn_connect lib conn host prt timeout =
     (conn @ [Connect host prt timeout],
      case ftp_connect lib conn host prt timeout of
        Inl e \<Rightarrow> Inl (TransportError e)
      | Inr welcome \<Rightarrow> Inr welcome)"

definition conn_login ::
  "'h library \<Rightarrow> ftp_conn \<Rightarrow> string \<Rightarrow> string \<Rightarrow> ftp_conn \<times> (error + string)" where
  "conn_login lib conn user passwd =
     (conn @ [Login user passwd],
      case ftp_login lib conn user passwd of
        Inl e \<Rightarrow> Inl (TransportError e)
      | Inr reply \<Rightarrow> Inr reply)"

definition conn_cwd :: "'h library \<Rightarrow> ftp_conn \<Rightarrow> string \<Rightarrow> ftp_conn \<times> (error + string)" where
  "conn_cwd lib conn dirname =
     (conn @ [Cwd dirname],
      case ftp_cwd lib conn dirname of
        Inl e \<Rightarrow> Inl (TransportError e)
      | Inr reply \<Rightarrow> Inr reply)"

fun run_callback ::
  "(buffer \<Rightarrow> string \<Rightarrow> error + buffer) \<Rightarrow> string list \<Rightarrow> buffer \<Rightarrow> error + buffer" where
  "run_callback callback [] variable = Inr variable"
| "run_callback callback (chunk # chunks) variable =
     (case callback variable chunk of
        Inl e \<Rightarrow> Inl e
      | Inr variable' \<Rightarrow> run_callback callback chunks variable')"

definition conn_retrbinary ::
  "'h library \<Rightarrow> ftp_conn \<Rightarrow> string \<Rightarrow> (buffer \<Rightarrow> string \<Rightarrow> error + buffer) \<Rightarrow> buffer
     \<Rightarrow> ftp_conn \<times> (error + buffer \<times> string)" where
  "conn_retrbinary lib conn cmd callback variable =
     (conn @ [Retrbinary cmd],
      case run_callback callback (fst (ftp_retrbinary lib conn cmd)) variable of
        Inl e \<Rightarrow> Inl e
      | Inr variable' \<Rightarrow>
          (case snd (ftp_retrbinary lib conn cmd) of
             Inl e \<Rightarrow> Inl (TransportError e)
           | Inr code \<Rightarrow> Inr (variable', code)))"

definition conn_storbinary ::
  "'h library \<Rightarrow> ftp_conn \<Rightarrow> string \<Rightarrow> buffer \<Rightarrow> ftp_conn \<times> (error + string)" where
  "conn_storbinary lib conn cmd fp =
     (conn @ [Storbinary cmd fp],
      case ftp_storbinary lib conn cmd fp of
        Inl e \<Rightarrow> Inl (TransportError e)
      | Inr code \<Rightarrow> Inr code)"

definition conn_close :: "ftp_conn \<Rightarrow> ftp_conn" where
  "conn_close conn = conn @ [Close]"

section \<open>The verb handlers and \<open>send\<close>\<close>

text \<open>
  A handler works on \<open>self.conn\<close>: it takes the connection's log and returns the log
  after its calls, with the response or the exception that ended it. The statements are
  in the order of the source; an exception ends the handler where it is raised.
\<close>

type_synonym 'h handler =
  "'h library \<Rightarrow> ftp_conn \<Rightarrow> string \<Rightarrow> 'h prepared_request \<Rightarrow> ftp_conn \<times> (error + 'h response)"

definition list_h :: "'h handler" where
  "list_h lib conn pth req =
     (case conn_cwd lib conn pth of
        (conn1, Inl e) \<Rightarrow> (conn1, Inl e)
      | (conn1, Inr _) \<Rightarrow>
          (case conn_retrbinary lib conn1 ''LIST'' data_callback_factory StringIO of
             (conn2, Inl e) \<Rightarrow> (conn2, Inl e)
           | (conn2, Inr (data, code)) \<Rightarrow>
               (case build_text_response lib req data code of
                  Inl e \<Rightarrow> (conn2, Inl e)
                | Inr resp \<Rightarrow> (conn_close conn2, Inr resp))))"

definition retr :: "'h handler" where
  "retr lib conn pth req =
     (case conn_retrbinary lib conn (''RETR '' @ pth) data_callback_factory BytesIO of
        (conn1, Inl e) \<Rightarrow> (conn1, Inl e)
      | (conn1, Inr (data, code)) \<Rightarrow>
          (case build_binary_response lib req data code of
             Inl e \<Rightarrow> (conn1, Inl e)
           | Inr resp \<Rightarrow> (conn_close conn1, Inr resp)))"

definition stor :: "'h handler" where
  "stor lib conn pth req =
     (case parse_multipart_files lib req of
        Inl e \<Rightarrow> (conn, Inl e)
      | Inr data \<Rightarrow>
          (case os_path_split lib pth of
             (dirname, filename) \<Rightarrow>
               (case conn_cwd lib conn dirname of
                  (conn1, Inl e) \<Rightarrow> (conn1, Inl e)
                | (conn1, Inr _) \<Rightarrow>
                    (case conn_storbinary lib conn1 (''STOR '' @ filename) data of
                       (conn2, Inl e) \<Rightarrow> (conn2, Inl e)
                     | (conn2, Inr code) \<Rightarrow>
                         (conn_close conn2, build_binary_response lib req BytesIO code)))))"

definition nlst :: "'h handler" where
  "nlst lib conn pth req =
     (case conn_cwd lib conn pth of
        (conn1, Inl e) \<Rightarrow> (conn1, Inl e)
      | (conn1, Inr _) \<Rightarrow>
          (case conn_retrbinary lib conn1 ''NLST'' data_callback_factory StringIO of
             (conn2, Inl e) \<Rightarrow> (conn2, Inl e)
           | (conn2, Inr (data, code)) \<Rightarrow>
               (case build_text_response lib req data code of
                  Inl e \<Rightarrow> (conn2, Inl e)
                | Inr resp \<Rightarrow> (conn_close conn2, Inr resp))))"

text \<open>The dispatch table built by the constructor; a method outside it is a \<open>KeyError\<close>.\<close>

definition func_table :: "string \<Rightarrow> 'h handler option" where
  "func_table m =
     (if m = ''LIST'' then Some list_h
      else if m = ''RETR'' then Some retr
      else if m = ''STOR'' then Some stor
      else if m = ''NLST'' then Some nlst
      else None)"

text \<open>
  \<open>send\<close> returns the log of the connection object it created (empty when it raised
  before creating one) and its result. The keyword arguments map a name to a value, and
  the value of \<open>timeout\<close> may itself be \<open>None\<close>. Credentials are extracted first, then the
  endpoint; the connection is made; \<open>login\<close> is called only when credentials were
  extracted; the handler is looked up after that.
\<close>

definition send ::
  "'h library \<Rightarrow> 'h prepared_request \<Rightarrow> (string \<rightharpoonup> int option)
     \<Rightarrow> ftp_conn \<times> (error + 'h response)" where
  "send lib req kwargs =
     (case get_username_password_from_header lib req of
        Inl e \<Rightarrow> ([], Inl e)
      | Inr auth \<Rightarrow>
          (case get_host_and_path_from_url lib req of
             Inl e \<Rightarrow> ([], Inl e)
           | Inr (host, prt, pth) \<Rightarrow>
               (let timeout = (case kwargs ''timeout'' of None \<Rightarrow> None | Some t \<Rightarrow> t)
                in case conn_connect lib [] host prt timeout of
                     (conn1, Inl e) \<Rightarrow> (conn1, Inl e)
                   | (conn1, Inr _) \<Rightarrow>
                       (case (case auth of
                                None \<Rightarrow> (conn1, Inr [])
                              | Some (user, passwd) \<Rightarrow> conn_login lib conn1 user passwd) of
                          (conn2, Inl e) \<Rightarrow> (conn2, Inl e)
                        | (conn2, Inr _) \<Rightarrow>
                            (case func_table (req_method req) of
                               None \<Rightarrow> (conn2, Inl (KeyError (req_method req)))
                             | Some handler \<Rightarrow> handler lib conn2 pth req)))))"

section \<open>A concrete library for worked examples\<close>

text \<open>
  The theorems below hold for every library. To run the adapter on concrete requests the
  parameters are instantiated with the definitions of this section.
\<close>

text \<open>
  Modelled from the spec: \<open>os.path.split\<close> is a library function, not part of the
  sources; the spec says the target path is split into directory and filename. The
  definition is the POSIX one: the tail is what follows the last slash, the head is what
  precedes it, with trailing slashes removed from the head unless the head consists of
  slashes only.
\<close>

definition posix_split :: "string \<Rightarrow> string \<times> string" where
  "posix_split p =
     (let tail = rev (takeWhile (\<lambda>c. c \<noteq> CHR ''/'') (rev p));
          head = rev (dropWhile (\<lambda>c. c \<noteq> CHR ''/'') (rev p))
      in (if head \<noteq> [] \<and> head \<noteq> replicate (length head) (CHR ''/'')
          then rev (dropWhile (\<lambda>c. c = CHR ''/'') (rev head))
          else head,
          tail))"

text \<open>Decimal digits, the number a string of them denotes, and lower case.\<close>

definition is_digit :: "char \<Rightarrow> bool" where
  "is_digit c = (48 \<le> (of_char c :: nat) \<and> (of_char c :: nat) \<le> 57)"

definition digits_to_int :: "string \<Rightarrow> int" where
  "digits_to_int ds = foldl (\<lambda>a c. 10 * a + (of_char c - 48)) 0 ds"

definition to_lower :: "char \<Rightarrow> char" where
  "to_lower c =
     (if 65 \<le> (of_char c :: nat) \<and> (of_char c :: nat) \<le> 90
      then char_of ((of_char c :: nat) + 32) else c)"

text \<open>
  Modelled from the spec: \<open>urlparse\<close> is a library function, not part of the sources; the
  spec gives the URL form \<open>ftp://[user:pass@]host[:port]/path\<close> and says it is parsed
  into hostname, optional port and path. The definition covers URLs of that form, without
  parameters, query, fragment or bracketed address: the network location runs from the
  double slash to the next slash and the path is the rest; user information, up to the
  last \<open>@\<close> of the network location, is dropped; the host name is what precedes the first
  colon, in lower case; the port is the decimal number between the first colon and the
  next, \<open>None\<close> when it is empty or above 65535; reading a port that is not a string of
  digits raises.
\<close>

definition urlparse_simple :: "string \<Rightarrow> lib_exn + parse_result" where
  "urlparse_simple u =
     (let rest = (if CHR '':'' \<in> set u then drop 1 (dropWhile (\<lambda>c. c \<noteq> CHR '':'') u) else u);
          netloc = (if take 2 rest = ''//''
                    then takeWhile (\<lambda>c. c \<noteq> CHR ''/'') (drop 2 rest) else []);
          pth = (if take 2 rest = ''//''
                 then dropWhile (\<lambda>c. c \<noteq> CHR ''/'') (drop 2 rest) else rest);
          hostport = rev (takeWhile (\<lambda>c. c \<noteq> CHR ''@'') (rev netloc));
          host = map to_lower (takeWhile (\<lambda>c. c \<noteq> CHR '':'') hostport);
          prt = (case split_on (CHR '':'') hostport of
                   before # after # others \<Rightarrow> after
                 | _ \<Rightarrow> [])
      in Inr \<lparr>path = pth,
              hostname = (if hostport = [] then None else Some host),
              port = (if list_all is_digit prt
                      then Inr (if prt = [] \<or> 65535 < digits_to_int prt then None
                                else Some (digits_to_int prt))
                      else Inl ''invalid literal for int() with base 10'')\<rparr>)"

text \<open>The position of a character in the standard base64 alphabet.\<close>

definition b64_index :: "char \<Rightarrow> nat option" where
  "b64_index c =
     (let n = (of_char c :: nat)
      in if 65 \<le> n \<and> n \<le> 90 then Some (n - 65)
         else if 97 \<le> n \<and> n \<le> 122 then Some (n - 71)
         else if 48 \<le> n \<and> n \<le> 57 then Some (n + 4)
         else if c = CHR ''+'' then Some 62
         else if c = CHR ''/'' then Some 63
         else None)"

text \<open>
  Modelled from the spec: \<open>base64.b64decode\<close> is a library function, not part of the
  sources; the spec says the payload is base64 and that malformed base64 is a decode
  error. The definition is the decoder of the standard alphabet on padded input, four
  characters to three bytes.
\<close>

fun b64decode_std :: "string \<Rightarrow> lib_exn + string" where
  "b64decode_std [] = Inr []"
| "b64decode_std (a # b # c # d # rest) =
     (case (b64_index a, b64_index b) of
        (Some x, Some y) \<Rightarrow>
          if c = CHR ''='' \<and> d = CHR ''='' \<and> rest = []
          then Inr [char_of (x * 4 + y div 16)]
          else
            (case b64_index c of
               None \<Rightarrow> Inl ''Incorrect padding''
             | Some z \<Rightarrow>
                 if d = CHR ''='' \<and> rest = []
                 then Inr [char_of (x * 4 + y div 16), char_of ((y mod 16) * 16 + z div 4)]
                 else
                   (case b64_index d of
                      None \<Rightarrow> Inl ''Incorrect padding''
                    | Some w \<Rightarrow>
                        (case b64decode_std rest of
                           Inl e \<Rightarrow> Inl e
                         | Inr bytes \<Rightarrow>
                             Inr (char_of (x * 4 + y div 16)
                                  # char_of ((y mod 16) * 16 + z div 4)
                                  # char_of ((z mod 4) * 64 + w)
                                  # bytes))))
      | _ \<Rightarrow> Inl ''Incorrect padding'')"
| "b64decode_std _ = Inl ''Incorrect padding''"

text \<open>
  The request body of the upload example: a single part, boundary \<open>X\<close>, holding the two
  lines \<open>a,b,c\<close> and \<open>1,2,3\<close>.
\<close>

definition crlf :: string where
  "crlf = [CHR 0x0D, CHR 0x0A]"

definition example_payload :: string where
  "example_payload = ''a,b,c'' @ [CHR 0x0A] @ ''1,2,3'' @ [CHR 0x0A]"

definition example_body :: string where
  "example_body =
     ''--X'' @ crlf
     @ ''Content-Disposition: form-data; name=\"file\"; filename=\"report.csv\"'' @ crlf
     @ crlf
     @ example_payload @ crlf
     @ ''--X--'' @ crlf"

text \<open>
  Modelled from the spec: \<open>cgi.parse_header\<close> is a library function, not part of the
  sources; the spec says the \<open>Content-Type\<close> header is decoded to obtain the multipart
  boundary parameters. The definition takes the text before the first semicolon as the
  value and every later \<open>key=value\<close> section as a parameter.
\<close>

definition example_parse_header :: "string \<Rightarrow> string \<times> (string \<times> string) list" where
  "example_parse_header line =
     (takeWhile (\<lambda>c. c \<noteq> CHR '';'') line,
      map (\<lambda>p. (dropWhile is_space (takeWhile (\<lambda>c. c \<noteq> CHR ''='') p),
                 drop 1 (dropWhile (\<lambda>c. c \<noteq> CHR ''='') p)))
          (drop 1 (split_on (CHR '';'') line)))"

text \<open>
  Modelled from the spec: \<open>cgi.parse_multipart\<close> is a library function, not part of the
  sources; the spec treats multipart parsing as a black-box decoder that yields the parts
  of the body. The definition decodes the one body of the upload example, read from the
  cursor of the file object, and refuses every other.
\<close>

definition example_parse_multipart ::
  "buffer \<Rightarrow> (string \<times> string) list \<Rightarrow> lib_exn + (string \<times> string list) list" where
  "example_parse_multipart fp pdict =
     (if drop (pos fp) (contents fp) = example_body \<and> map_of pdict ''boundary'' = Some ''X''
      then Inr [(''file'', [example_payload])]
      else Inl ''unsupported multipart body'')"

text \<open>
  The example server accepts everything: it answers a retrieve with two chunks and
  \<open>226 Transfer complete.\<close>, and a store with the same reply. No hook is registered, so
  the dispatcher returns the response it is given.
\<close>

definition example_lib :: "unit library" where
  "example_lib =
     \<lparr>urlparse = urlparse_simple,
      b64decode = b64decode_std,
      cgi_parse_header = example_parse_header,
      cgi_parse_multipart = example_parse_multipart,
      os_path_split = posix_split,
      dispatch_hook = (\<lambda>key hks resp. Inr resp),
      ftp_connect = (\<lambda>conn host prt timeout. Inr ''220 ready''),
      ftp_login = (\<lambda>conn user passwd. Inr ''230 Login successful.''),
      ftp_cwd = (\<lambda>conn dirname. Inr ''250 Directory changed.''),
      ftp_retrbinary = (\<lambda>conn cmd. ([''hello '', ''world''], Inr ''226 Transfer complete.'')),
      ftp_storbinary = (\<lambda>conn cmd fp. Inr ''226 Transfer complete.'')\<rparr>"

text \<open>The same server, except that every directory change is refused.\<close>

definition refusing_lib :: "unit library" where
  "refusing_lib = example_lib\<lparr>ftp_cwd := (\<lambda>conn dirname. Inl ''550 Failed to change directory.'')\<rparr>"

definition example_request :: "string \<Rightarrow> string \<Rightarrow> (string \<rightharpoonup> string) \<Rightarrow> unit prepared_request" where
  "example_request m u hs = \<lparr>req_method = m, url = u, headers = hs, body = None, hooks = ()\<rparr>"

definition stor_request :: "unit prepared_request" where
  "stor_request =
     \<lparr>req_method = ''STOR'', url = ''ftp://host:21/uploads/report.csv'',
      headers = [''Content-Type'' \<mapsto> ''multipart/form-data; boundary=X''],
      body = Some example_body, hooks = ()\<rparr>"

text \<open>
  The same library with a registered hook that replaces the body and the status code of
  the response.
\<close>

definition replacing_lib :: "unit library" where
  "replacing_lib =
     example_lib\<lparr>dispatch_hook :=
       (\<lambda>key hks resp.
          Inr (resp\<lparr>raw := \<lparr>contents = ''not empty'', pos = 0, closed = False\<rparr>,
                    status_code := PyInt 500\<rparr>))\<rparr>"

text \<open>The same library with a registered hook that replaces the encoding of the response.\<close>

definition hooked_lib :: "unit library" where
  "hooked_lib =
     example_lib\<lparr>dispatch_hook := (\<lambda>key hks resp. Inr (resp\<lparr>encoding := Some ''utf-8''\<rparr>))\<rparr>"

section \<open>Basic facts\<close>

lemmas conn_defs = conn_cwd_def conn_retrbinary_def conn_storbinary_def conn_close_def
  conn_connect_def conn_login_def

lemma split_ws_Nil: "split_ws [] = []"
  by (simp add: split_ws.simps)

lemma split_on_append_sep:
  "sep \<notin> set u \<Longrightarrow> split_on sep (u @ sep # p) = u # split_on sep p"
  by (induction u) auto

lemma split_on_hd: "\<exists>ws. split_on sep p = takeWhile (\<lambda>c. c \<noteq> sep) p # ws"
  by (induction p) (auto split: list.splits)

lemma write_then_rewind:
  "\<exists>buf. buffer_write BytesIO s = Inr buf
         \<and> buffer_seek buf 0 = Inr \<lparr>contents = s, pos = 0, closed = False\<rparr>"
  by (cases "s = []") (simp_all add: buffer_write_def buffer_seek_def BytesIO_def)

lemma build_response_Inr_iff:
  "build_response lib req data code enc = Inr resp \<longleftrightarrow>
     (\<exists>tok rest. split_ws code = tok # rest \<and> \<not> closed data \<and>
        dispatch_hook lib ''response'' (hooks req)
          \<lparr>encoding = enc, raw = data\<lparr>pos := 0\<rparr>, response_url = url req,
           request = req, status_code = PyStr tok\<rparr> = Inr resp)"
  by (auto simp: build_response_def buffer_seek_def split: list.splits sum.splits if_splits)

subsection \<open>Values of the library functions at the inputs of the examples\<close>

lemma split_ws_226: "split_ws ''226 Transfer complete.'' = [''226'', ''Transfer'', ''complete.'']"
  by code_simp

lemma split_ws_basic_colon:
  "split_ws ''Basic dXNlcjpwYTpzcw=='' = [''Basic'', ''dXNlcjpwYTpzcw=='']"
  by code_simp

lemma split_ws_basic_only: "split_ws ''Basic'' = [''Basic'']"
  by code_simp

lemma split_ws_digest: "split_ws ''Digest dXNlcjpwYXNz'' = [''Digest'', ''dXNlcjpwYXNz'']"
  by code_simp

lemma b64_user_pa_ss: "b64decode_std ''dXNlcjpwYTpzcw=='' = Inr ''user:pa:ss''"
  by code_simp

lemma urlparse_double:
  "urlparse_simple ''ftp://host:21//a/b''
     = Inr \<lparr>path = ''//a/b'', hostname = Some ''host'', port = Inr (Some 21)\<rparr>"
  by code_simp

lemma urlparse_readme:
  "urlparse_simple ''ftp://host:21/pub/readme.txt''
     = Inr \<lparr>path = ''/pub/readme.txt'', hostname = Some ''host'', port = Inr (Some 21)\<rparr>"
  by code_simp

lemma urlparse_pub:
  "urlparse_simple ''ftp://host:21/pub''
     = Inr \<lparr>path = ''/pub'', hostname = Some ''host'', port = Inr (Some 21)\<rparr>"
  by code_simp

lemma urlparse_nopath:
  "urlparse_simple ''ftp://host'' = Inr \<lparr>path = [], hostname = Some ''host'', port = Inr None\<rparr>"
  by code_simp

lemma posix_split_upload: "posix_split ''uploads/report.csv'' = (''uploads'', ''report.csv'')"
  by code_simp

lemma example_header:
  "example_parse_header ''multipart/form-data; boundary=X''
     = (''multipart/form-data'', [(''boundary'', ''X'')])"
  by code_simp

lemma example_multipart:
  "cgi_parse_multipart example_lib \<lparr>contents = example_body, pos = 0, closed = False\<rparr>
     (snd (cgi_parse_header example_lib ''multipart/form-data; boundary=X''))
   = Inr ((''file'', [example_payload]) # [])"
  by (simp add: example_lib_def example_header example_parse_multipart_def)

lemma send_list_example:
  "send example_lib (example_request ''LIST'' ''ftp://host:21/pub'' Map.empty) Map.empty
     = ([Connect (Some ''host'') (Some 21) None, Cwd ''pub'', Retrbinary ''LIST'', Close],
        Inr \<lparr>encoding = Some ''ascii'',
             raw = \<lparr>contents = ''hello world'', pos = 0, closed = False\<rparr>,
             response_url = ''ftp://host:21/pub'',
             request = example_request ''LIST'' ''ftp://host:21/pub'' Map.empty,
             status_code = PyStr ''226''\<rparr>)"
  by (simp add: send_def get_username_password_from_header_def get_host_and_path_from_url_def
      example_request_def example_lib_def urlparse_pub conn_defs func_table_def list_h_def
      data_callback_factory_def buffer_write_def StringIO_def build_text_response_def
      build_response_def split_ws_226 buffer_seek_def)

lemma send_retr_example:
  "fst (send example_lib (example_request ''RETR'' ''ftp://host:21/pub/readme.txt'' Map.empty)
          Map.empty)
     = [Connect (Some ''host'') (Some 21) None, Retrbinary ''RETR pub/readme.txt'', Close]"
  by (simp add: send_def get_username_password_from_header_def get_host_and_path_from_url_def
      example_request_def example_lib_def urlparse_readme conn_defs func_table_def retr_def
      data_callback_factory_def buffer_write_def BytesIO_def build_binary_response_def
      build_response_def split_ws_226 buffer_seek_def)

section \<open>Response construction\<close>

text \<open>
  C1 (as amended). Whenever response construction returns a response for a reply string
  with a leading whitespace-delimited token, the response it built and handed to the hook
  dispatcher carries that token itself as its status code: the string, not an integer
  parsed from it. The other attributes are the encoding, the rewound buffer, and the URL
  and the request it was given.
\<close>

theorem build_response_status_is_leading_token:
  assumes "split_ws code = tok # rest"
    and "build_response lib req data code enc = Inr resp"
  shows "\<exists>pre. status_code pre = PyStr tok
           \<and> encoding pre = enc \<and> raw pre = data\<lparr>pos := 0\<rparr>
           \<and> response_url pre = url req \<and> request pre = req
           \<and> dispatch_hook lib ''response'' (hooks req) pre = Inr resp"
proof -
  from assms have
    "dispatch_hook lib ''response'' (hooks req)
       \<lparr>encoding = enc, raw = data\<lparr>pos := 0\<rparr>, response_url = url req,
        request = req, status_code = PyStr tok\<rparr> = Inr resp"
    unfolding build_response_Inr_iff by auto
  then show ?thesis
    by (intro exI [where x = "\<lparr>encoding = enc, raw = data\<lparr>pos := 0\<rparr>, response_url = url req,
        request = req, status_code = PyStr tok\<rparr>"]) simp
qed

text \<open>
  The theorem at the reply \<open>226 Transfer complete.\<close>, with no hook registered: the
  response that comes back has the status code \<open>PyStr ''226''\<close>.
\<close>

theorem build_response_status_is_leading_token_witness:
  "split_ws ''226 Transfer complete.'' = ''226'' # [''Transfer'', ''complete.'']
   \<and> build_response example_lib
        (example_request ''RETR'' ''ftp://host:21/pub/readme.txt'' Map.empty)
        BytesIO ''226 Transfer complete.'' None
      = Inr \<lparr>encoding = None, raw = BytesIO, response_url = ''ftp://host:21/pub/readme.txt'',
             request = example_request ''RETR'' ''ftp://host:21/pub/readme.txt'' Map.empty,
             status_code = PyStr ''226''\<rparr>
   \<and> (\<exists>pre. status_code pre = PyStr ''226''
          \<and> encoding pre = None \<and> raw pre = BytesIO\<lparr>pos := 0\<rparr>
          \<and> response_url pre
              = url (example_request ''RETR'' ''ftp://host:21/pub/readme.txt'' Map.empty)
          \<and> request pre = example_request ''RETR'' ''ftp://host:21/pub/readme.txt'' Map.empty
          \<and> dispatch_hook example_lib ''response''
               (hooks (example_request ''RETR'' ''ftp://host:21/pub/readme.txt'' Map.empty)) pre
             = Inr \<lparr>encoding = None, raw = BytesIO,
                    response_url = ''ftp://host:21/pub/readme.txt'',
                    request = example_request ''RETR'' ''ftp://host:21/pub/readme.txt'' Map.empty,
                    status_code = PyStr ''226''\<rparr>)"
proof -
  have tok: "split_ws ''226 Transfer complete.'' = ''226'' # [''Transfer'', ''complete.'']"
    by (simp add: split_ws_226)
  have run: "build_response example_lib
        (example_request ''RETR'' ''ftp://host:21/pub/readme.txt'' Map.empty)
        BytesIO ''226 Transfer complete.'' None
      = Inr \<lparr>encoding = None, raw = BytesIO, response_url = ''ftp://host:21/pub/readme.txt'',
             request = example_request ''RETR'' ''ftp://host:21/pub/readme.txt'' Map.empty,
             status_code = PyStr ''226''\<rparr>"
    by (simp add: build_response_def tok buffer_seek_def BytesIO_def example_lib_def
        example_request_def)
  from build_response_status_is_leading_token [OF tok run] tok run show ?thesis
    by blast
qed

text \<open>
  C1 as stated fails: for the reply \<open>226 Transfer complete.\<close> the status code of the
  returned response is the string \<open>226\<close>, which is not the integer 226.
\<close>

theorem build_response_status_counterexample:
  "map_sum id status_code
     (build_response example_lib
        (example_request ''RETR'' ''ftp://host:21/pub/readme.txt'' Map.empty)
        BytesIO ''226 Transfer complete.'' None) = Inr (PyStr ''226'')
   \<and> map_sum id status_code
     (build_response example_lib
        (example_request ''RETR'' ''ftp://host:21/pub/readme.txt'' Map.empty)
        BytesIO ''226 Transfer complete.'' None) \<noteq> Inr (PyInt 226)"
  by (simp add: build_response_def split_ws_226 buffer_seek_def BytesIO_def example_lib_def)

text \<open>
  C8. Every response that response construction returns is the hook dispatcher's return
  value for a response whose raw buffer is the given buffer, contents unchanged, with its
  cursor at zero.
\<close>

theorem build_response_rewinds_and_returns_hook_result:
  assumes "build_response lib req data code enc = Inr resp"
  shows "\<exists>pre. raw pre = data\<lparr>pos := 0\<rparr> \<and> pos (raw pre) = 0
           \<and> contents (raw pre) = contents data
           \<and> dispatch_hook lib ''response'' (hooks req) pre = Inr resp"
proof -
  from assms obtain tok where
    "dispatch_hook lib ''response'' (hooks req)
       \<lparr>encoding = enc, raw = data\<lparr>pos := 0\<rparr>, response_url = url req,
        request = req, status_code = PyStr tok\<rparr> = Inr resp"
    unfolding build_response_Inr_iff by blast
  then show ?thesis
    by (intro exI [where x = "\<lparr>encoding = enc, raw = data\<lparr>pos := 0\<rparr>, response_url = url req,
        request = req, status_code = PyStr tok\<rparr>"]) simp
qed

text \<open>
  The theorem for a buffer whose cursor stands at its end and a hook that replaces the
  encoding: the response that comes back is the hook's, with the buffer rewound.
\<close>

theorem build_response_rewinds_and_returns_hook_result_witness:
  "build_response hooked_lib (example_request ''RETR'' ''ftp://host:21/pub/readme.txt'' Map.empty)
     \<lparr>contents = ''hello world'', pos = 11, closed = False\<rparr> ''226 Transfer complete.'' None
     = Inr \<lparr>encoding = Some ''utf-8'',
            raw = \<lparr>contents = ''hello world'', pos = 0, closed = False\<rparr>,
            response_url = ''ftp://host:21/pub/readme.txt'',
            request = example_request ''RETR'' ''ftp://host:21/pub/readme.txt'' Map.empty,
            status_code = PyStr ''226''\<rparr>
   \<and> (\<exists>pre. raw pre = \<lparr>contents = ''hello world'', pos = 11, closed = False\<rparr>\<lparr>pos := 0\<rparr>
          \<and> pos (raw pre) = 0
          \<and> contents (raw pre) = ''hello world''
          \<and> dispatch_hook hooked_lib ''response''
               (hooks (example_request ''RETR'' ''ftp://host:21/pub/readme.txt'' Map.empty)) pre
             = Inr \<lparr>encoding = Some ''utf-8'',
                    raw = \<lparr>contents = ''hello world'', pos = 0, closed = False\<rparr>,
                    response_url = ''ftp://host:21/pub/readme.txt'',
                    request = example_request ''RETR'' ''ftp://host:21/pub/readme.txt'' Map.empty,
                    status_code = PyStr ''226''\<rparr>)"
proof -
  have run: "build_response hooked_lib
       (example_request ''RETR'' ''ftp://host:21/pub/readme.txt'' Map.empty)
       \<lparr>contents = ''hello world'', pos = 11, closed = False\<rparr> ''226 Transfer complete.'' None
     = Inr \<lparr>encoding = Some ''utf-8'',
            raw = \<lparr>contents = ''hello world'', pos = 0, closed = False\<rparr>,
            response_url = ''ftp://host:21/pub/readme.txt'',
            request = example_request ''RETR'' ''ftp://host:21/pub/readme.txt'' Map.empty,
            status_code = PyStr ''226''\<rparr>"
    by (simp add: build_response_def split_ws_226 buffer_seek_def hooked_lib_def example_lib_def
        example_request_def)
  from build_response_rewinds_and_returns_hook_result [OF run] run show ?thesis by simp
qed

section \<open>Credential extraction\<close>

text \<open>
  What the code returns for a \<open>Basic\<close> header whose payload decodes to a user name
  without colon, a colon, and a password: the password up to its first colon.
\<close>

lemma credentials_cut_at_colons:
  assumes "headers req ''Authorization'' = Some auth_header"
    and "split_ws auth_header = ''Basic'' # encoded # others"
    and "b64decode lib encoded = Inr (user @ CHR '':'' # passwd)"
    and "CHR '':'' \<notin> set user"
  shows "get_username_password_from_header lib req
           = Inr (Some (user, takeWhile (\<lambda>c. c \<noteq> CHR '':'') passwd))"
proof -
  from assms(2) have ne: "auth_header \<noteq> []"
    by (auto simp: split_ws_Nil)
  obtain ws where "split_on (CHR '':'') passwd = takeWhile (\<lambda>c. c \<noteq> CHR '':'') passwd # ws"
    using split_on_hd by blast
  with assms(4) have "split_on (CHR '':'') (user @ CHR '':'' # passwd)
                        = user # takeWhile (\<lambda>c. c \<noteq> CHR '':'') passwd # ws"
    by (simp add: split_on_append_sep)
  with assms(1-3) ne show ?thesis
    by (simp add: get_username_password_from_header_def)
qed

text \<open>
  C2. The claim asks for the pair \<open>(user, pa:ss)\<close> from the header
  \<open>Basic dXNlcjpwYTpzcw==\<close>, the encoding of \<open>user:pa:ss\<close>. The code splits the
  decoded string at every colon and returns elements 0 and 1: the password comes back
  as \<open>pa\<close>.
\<close>

theorem colon_in_password_truncated:
  "get_username_password_from_header example_lib
     (example_request ''RETR'' ''ftp://host:21/pub/readme.txt''
        [''Authorization'' \<mapsto> ''Basic dXNlcjpwYTpzcw==''])
   = Inr (Some (''user'', ''pa''))"
  by (simp add: get_username_password_from_header_def example_request_def example_lib_def
      split_ws_basic_colon b64_user_pa_ss del: b64decode_std.simps)

text \<open>
  A header without any token is not rejected as a foreign scheme: the empty header counts
  as absent, and a header of whitespace only raises \<open>IndexError\<close>.
\<close>

lemma empty_header_no_credentials:
  "headers req ''Authorization'' = Some [] \<Longrightarrow> get_username_password_from_header lib req = Inr None"
  by (simp add: get_username_password_from_header_def)

lemma blank_header_raises_IndexError:
  "headers req ''Authorization'' = Some auth_header \<Longrightarrow> auth_header \<noteq> []
     \<Longrightarrow> split_ws auth_header = []
     \<Longrightarrow> get_username_password_from_header lib req = Inl IndexError"
  by (simp add: get_username_password_from_header_def)

text \<open>
  C5. When the \<open>Authorization\<close> header is present and its first whitespace-delimited
  token is not \<open>Basic\<close>, credential extraction raises \<open>AuthError\<close>: no credentials are
  returned, and the error is none of the transport errors.
\<close>

theorem non_basic_scheme_raises_AuthError:
  assumes "headers req ''Authorization'' = Some auth_header"
    and "split_ws auth_header = scheme # rest"
    and "scheme \<noteq> ''Basic''"
  shows "get_username_password_from_header lib req
           = Inl (AuthError ''Invalid form of Authentication used.'')
         \<and> (\<forall>e. AuthError ''Invalid form of Authentication used.'' \<noteq> TransportError e)"
proof -
  from assms(2) have "auth_header \<noteq> []"
    by (auto simp: split_ws_Nil)
  with assms show ?thesis
    by (simp add: get_username_password_from_header_def)
qed

text \<open>The theorem at the header \<open>Digest dXNlcjpwYXNz\<close>.\<close>

theorem non_basic_scheme_raises_AuthError_witness:
  "headers (example_request ''RETR'' ''ftp://host:21/pub/readme.txt''
        [''Authorization'' \<mapsto> ''Digest dXNlcjpwYXNz'']) ''Authorization''
     = Some ''Digest dXNlcjpwYXNz''
   \<and> split_ws ''Digest dXNlcjpwYXNz'' = ''Digest'' # [''dXNlcjpwYXNz'']
   \<and> ''Digest'' \<noteq> ''Basic''
   \<and> get_username_password_from_header example_lib
        (example_request ''RETR'' ''ftp://host:21/pub/readme.txt''
           [''Authorization'' \<mapsto> ''Digest dXNlcjpwYXNz''])
       = Inl (AuthError ''Invalid form of Authentication used.'')"
proof -
  have h: "headers (example_request ''RETR'' ''ftp://host:21/pub/readme.txt''
        [''Authorization'' \<mapsto> ''Digest dXNlcjpwYXNz'']) ''Authorization''
     = Some ''Digest dXNlcjpwYXNz''"
    by (simp add: example_request_def)
  have t: "split_ws ''Digest dXNlcjpwYXNz'' = ''Digest'' # [''dXNlcjpwYXNz'']"
    by (simp add: split_ws_digest)
  have n: "''Digest'' \<noteq> ''Basic''" by simp
  from non_basic_scheme_raises_AuthError [OF h t n, of example_lib] h t n
  show ?thesis by simp
qed

text \<open>
  C10. When the \<open>Authorization\<close> header consists of the single token \<open>Basic\<close>,
  credential extraction raises \<open>IndexError\<close>, which is neither an \<open>AuthError\<close> nor a
  decode error.
\<close>

theorem basic_without_payload_raises_IndexError:
  assumes "headers req ''Authorization'' = Some auth_header"
    and "split_ws auth_header = [''Basic'']"
  shows "get_username_password_from_header lib req = Inl IndexError
         \<and> (\<forall>m. IndexError \<noteq> AuthError m) \<and> (\<forall>m. IndexError \<noteq> DecodeError m)"
proof -
  from assms(2) have "auth_header \<noteq> []"
    by (auto simp: split_ws_Nil)
  with assms show ?thesis
    by (simp add: get_username_password_from_header_def)
qed

text \<open>The theorem at the header \<open>Basic\<close>.\<close>

theorem basic_without_payload_raises_IndexError_witness:
  "headers (example_request ''RETR'' ''ftp://host:21/pub/readme.txt''
        [''Authorization'' \<mapsto> ''Basic'']) ''Authorization'' = Some ''Basic''
   \<and> split_ws ''Basic'' = [''Basic'']
   \<and> get_username_password_from_header example_lib
        (example_request ''RETR'' ''ftp://host:21/pub/readme.txt''
           [''Authorization'' \<mapsto> ''Basic'']) = Inl IndexError"
proof -
  have h: "headers (example_request ''RETR'' ''ftp://host:21/pub/readme.txt''
        [''Authorization'' \<mapsto> ''Basic'']) ''Authorization'' = Some ''Basic''"
    by (simp add: example_request_def)
  from basic_without_payload_raises_IndexError [OF h split_ws_basic_only, of example_lib]
    h split_ws_basic_only
  show ?thesis by simp
qed

section \<open>Endpoint extraction\<close>

text \<open>
  C6. When the URL parses to a path that begins with a slash and to a port, endpoint
  extraction returns the parsed host name and port, and the path without that one slash;
  whatever follows it, a second slash included, is kept.
\<close>

theorem endpoint_strips_one_leading_slash:
  assumes "urlparse lib (url req) = Inr parsed"
    and "path parsed = CHR ''/'' # rest"
    and "port parsed = Inr prt"
  shows "get_host_and_path_from_url lib req = Inr (hostname parsed, prt, rest)"
  using assms by (simp add: get_host_and_path_from_url_def)

text \<open>The theorem at \<open>ftp://host:21//a/b\<close>: the second slash stays.\<close>

theorem endpoint_strips_one_leading_slash_witness:
  "urlparse example_lib (url (example_request ''LIST'' ''ftp://host:21//a/b'' Map.empty))
     = Inr \<lparr>path = ''//a/b'', hostname = Some ''host'', port = Inr (Some 21)\<rparr>
   \<and> get_host_and_path_from_url example_lib
        (example_request ''LIST'' ''ftp://host:21//a/b'' Map.empty)
     = Inr (Some ''host'', Some 21, ''/a/b'')"
proof -
  have u: "urlparse example_lib (url (example_request ''LIST'' ''ftp://host:21//a/b'' Map.empty))
     = Inr \<lparr>path = ''//a/b'', hostname = Some ''host'', port = Inr (Some 21)\<rparr>"
    by (simp add: example_lib_def example_request_def urlparse_double)
  have p: "path \<lparr>path = ''//a/b'', hostname = Some ''host'', port = Inr (Some 21)\<rparr>
             = CHR ''/'' # ''/a/b''"
    by simp
  have q: "port \<lparr>path = ''//a/b'', hostname = Some ''host'', port = Inr (Some 21)\<rparr>
             = Inr (Some 21)"
    by simp
  from endpoint_strips_one_leading_slash [OF u p q] u show ?thesis by simp
qed

text \<open>
  C9. When the URL parses to an empty path, endpoint extraction raises \<open>IndexError\<close>,
  and \<open>send\<close> fails without a single call on a connection: with that error, or with the
  one credential extraction raised before it.
\<close>

theorem empty_path_raises_before_connecting:
  assumes "urlparse lib (url req) = Inr parsed"
    and "path parsed = []"
  shows "get_host_and_path_from_url lib req = Inl IndexError
         \<and> send lib req kwargs
             = ([], Inl (case get_username_password_from_header lib req of
                           Inl e \<Rightarrow> e | Inr auth \<Rightarrow> IndexError))"
  using assms by (simp add: get_host_and_path_from_url_def send_def split: sum.splits)

text \<open>The theorem at \<open>ftp://host\<close>, without credentials.\<close>

theorem empty_path_raises_before_connecting_witness:
  "urlparse example_lib (url (example_request ''LIST'' ''ftp://host'' Map.empty))
     = Inr \<lparr>path = [], hostname = Some ''host'', port = Inr None\<rparr>
   \<and> get_host_and_path_from_url example_lib (example_request ''LIST'' ''ftp://host'' Map.empty)
     = Inl IndexError
   \<and> send example_lib (example_request ''LIST'' ''ftp://host'' Map.empty) Map.empty
     = ([], Inl IndexError)"
proof -
  have u: "urlparse example_lib (url (example_request ''LIST'' ''ftp://host'' Map.empty))
     = Inr \<lparr>path = [], hostname = Some ''host'', port = Inr None\<rparr>"
    by (simp add: example_lib_def example_request_def urlparse_nopath)
  have p: "path \<lparr>path = [], hostname = Some ''host'', port = Inr None\<rparr> = []"
    by simp
  have c: "get_username_password_from_header example_lib
             (example_request ''LIST'' ''ftp://host'' Map.empty) = Inr None"
    by (simp add: get_username_password_from_header_def example_request_def)
  from empty_path_raises_before_connecting [OF u p, of Map.empty] u c show ?thesis by simp
qed

section \<open>The upload handler\<close>

lemma parse_multipart_files_ok:
  assumes "headers req ''Content-Type'' = Some content_type"
    and "body req = Some b"
    and "cgi_parse_multipart lib \<lparr>contents = b, pos = 0, closed = False\<rparr>
           (snd (cgi_parse_header lib content_type)) = Inr ((name, filedata) # others)"
  shows "parse_multipart_files lib req
           = Inr \<lparr>contents = concat filedata, pos = 0, closed = False\<rparr>"
proof -
  obtain buf1 where b1: "buffer_write BytesIO b = Inr buf1"
    and s1: "buffer_seek buf1 0 = Inr \<lparr>contents = b, pos = 0, closed = False\<rparr>"
    using write_then_rewind by blast
  obtain buf3 where b3: "buffer_write BytesIO (concat filedata) = Inr buf3"
    and s3: "buffer_seek buf3 0 = Inr \<lparr>contents = concat filedata, pos = 0, closed = False\<rparr>"
    using write_then_rewind by blast
  show ?thesis
    using assms by (simp add: parse_multipart_files_def b1 s1 b3 s3)
qed

text \<open>
  C7 (as amended). For a STOR request whose body the multipart decoder accepts, on a
  server that accepts the directory change and the store and whose reply to the store has
  a leading token: the handler changes to the directory part of the path, stores under the
  file name with the rewound payload buffer as data source, and closes the connection; the
  response it builds has an empty body buffer and that leading token as status code; and
  what the handler returns is what the hook dispatcher returns for that response.
\<close>

theorem stor_uploads_and_builds_empty_body:
  assumes "headers req ''Content-Type'' = Some content_type"
    and "body req = Some b"
    and "cgi_parse_multipart lib \<lparr>contents = b, pos = 0, closed = False\<rparr>
           (snd (cgi_parse_header lib content_type)) = Inr ((name, filedata) # others)"
    and "os_path_split lib pth = (dirname, filename)"
    and "ftp_cwd lib conn dirname = Inr reply"
    and "ftp_storbinary lib (conn @ [Cwd dirname]) (''STOR '' @ filename)
           \<lparr>contents = concat filedata, pos = 0, closed = False\<rparr> = Inr code"
    and "split_ws code = tok # rest"
  shows "stor lib conn pth req
           = (conn @ [Cwd dirname,
                      Storbinary (''STOR '' @ filename)
                        \<lparr>contents = concat filedata, pos = 0, closed = False\<rparr>,
                      Close],
              case dispatch_hook lib ''response'' (hooks req)
                     \<lparr>encoding = None, raw = \<lparr>contents = [], pos = 0, closed = False\<rparr>,
                      response_url = url req, request = req, status_code = PyStr tok\<rparr> of
                Inl e \<Rightarrow> Inl (HookError e)
              | Inr resp \<Rightarrow> Inr resp)"
proof -
  have data: "parse_multipart_files lib req
                = Inr \<lparr>contents = concat filedata, pos = 0, closed = False\<rparr>"
    using assms(1-3) by (rule parse_multipart_files_ok)
  have resp: "build_binary_response lib req BytesIO code
                = (case dispatch_hook lib ''response'' (hooks req)
                     \<lparr>encoding = None, raw = \<lparr>contents = [], pos = 0, closed = False\<rparr>,
                      response_url = url req, request = req, status_code = PyStr tok\<rparr> of
                Inl e \<Rightarrow> Inl (HookError e)
              | Inr resp \<Rightarrow> Inr resp)"
    using assms(7)
    by (simp add: build_binary_response_def build_response_def buffer_seek_def BytesIO_def)
  show ?thesis
    using assms(4-6)
    by (simp add: stor_def data resp conn_cwd_def conn_storbinary_def conn_close_def)
qed

text \<open>
  The theorem for the upload of \<open>report.csv\<close> into \<open>uploads\<close> on a connected session.
\<close>

theorem stor_uploads_and_builds_empty_body_witness:
  "stor example_lib [Connect (Some ''host'') (Some 21) None] ''uploads/report.csv'' stor_request
     = ([Connect (Some ''host'') (Some 21) None,
         Cwd ''uploads'',
         Storbinary ''STOR report.csv'' \<lparr>contents = example_payload, pos = 0, closed = False\<rparr>,
         Close],
        Inr \<lparr>encoding = None, raw = \<lparr>contents = [], pos = 0, closed = False\<rparr>,
             response_url = ''ftp://host:21/uploads/report.csv'', request = stor_request,
             status_code = PyStr ''226''\<rparr>)"
proof -
  have ct: "headers stor_request ''Content-Type'' = Some ''multipart/form-data; boundary=X''"
    by (simp add: stor_request_def)
  have bd: "body stor_request = Some example_body"
    by (simp add: stor_request_def)
  have sp: "os_path_split example_lib ''uploads/report.csv'' = (''uploads'', ''report.csv'')"
    by (simp add: example_lib_def posix_split_upload)
  have cwd: "ftp_cwd example_lib [Connect (Some ''host'') (Some 21) None] ''uploads''
               = Inr ''250 Directory changed.''"
    by (simp add: example_lib_def)
  have st: "ftp_storbinary example_lib ([Connect (Some ''host'') (Some 21) None] @ [Cwd ''uploads''])
              (''STOR '' @ ''report.csv'')
              \<lparr>contents = concat [example_payload], pos = 0, closed = False\<rparr>
            = Inr ''226 Transfer complete.''"
    by (simp add: example_lib_def)
  have tok: "split_ws ''226 Transfer complete.'' = ''226'' # [''Transfer'', ''complete.'']"
    by (simp add: split_ws_226)
  from stor_uploads_and_builds_empty_body [OF ct bd example_multipart sp cwd st tok]
  show ?thesis
    by (simp add: example_lib_def stor_request_def)
qed

text \<open>
  C7 as stated fails. With a registered hook that replaces the body and the status code,
  the same upload makes the same calls, but the response that comes back holds
  \<open>not empty\<close> and the status 500, not an empty body and the status of the reply. And
  when the server refuses the directory change, the handler issues no store and returns no
  response.
\<close>

theorem stor_returns_hook_result_counterexample:
  "fst (stor replacing_lib [Connect (Some ''host'') (Some 21) None] ''uploads/report.csv''
          stor_request)
     = [Connect (Some ''host'') (Some 21) None,
        Cwd ''uploads'',
        Storbinary ''STOR report.csv'' \<lparr>contents = example_payload, pos = 0, closed = False\<rparr>,
        Close]
   \<and> map_sum id (\<lambda>resp. contents (raw resp))
        (snd (stor replacing_lib [Connect (Some ''host'') (Some 21) None] ''uploads/report.csv''
                stor_request))
     = Inr ''not empty''
   \<and> map_sum id status_code
        (snd (stor replacing_lib [Connect (Some ''host'') (Some 21) None] ''uploads/report.csv''
                stor_request))
     = Inr (PyInt 500)
   \<and> fst (stor refusing_lib [Connect (Some ''host'') (Some 21) None] ''uploads/report.csv''
            stor_request)
     = [Connect (Some ''host'') (Some 21) None, Cwd ''uploads'']
   \<and> map_sum id status_code
        (snd (stor refusing_lib [Connect (Some ''host'') (Some 21) None] ''uploads/report.csv''
                stor_request))
     = Inl (TransportError ''550 Failed to change directory.'')"
proof -
  have ct: "headers stor_request ''Content-Type'' = Some ''multipart/form-data; boundary=X''"
    by (simp add: stor_request_def)
  have bd: "body stor_request = Some example_body"
    by (simp add: stor_request_def)
  have mp1: "cgi_parse_multipart replacing_lib
               \<lparr>contents = example_body, pos = 0, closed = False\<rparr>
               (snd (cgi_parse_header replacing_lib ''multipart/form-data; boundary=X''))
             = Inr ((''file'', [example_payload]) # [])"
    by (simp add: replacing_lib_def example_lib_def example_header example_parse_multipart_def)
  have mp2: "cgi_parse_multipart refusing_lib
               \<lparr>contents = example_body, pos = 0, closed = False\<rparr>
               (snd (cgi_parse_header refusing_lib ''multipart/form-data; boundary=X''))
             = Inr ((''file'', [example_payload]) # [])"
    by (simp add: refusing_lib_def example_lib_def example_header example_parse_multipart_def)
  have data1: "parse_multipart_files replacing_lib stor_request
                 = Inr \<lparr>contents = example_payload, pos = 0, closed = False\<rparr>"
    using parse_multipart_files_ok [OF ct bd mp1] by simp
  have data2: "parse_multipart_files refusing_lib stor_request
                 = Inr \<lparr>contents = example_payload, pos = 0, closed = False\<rparr>"
    using parse_multipart_files_ok [OF ct bd mp2] by simp
  have sp1: "os_path_split replacing_lib ''uploads/report.csv'' = (''uploads'', ''report.csv'')"
    by (simp add: replacing_lib_def example_lib_def posix_split_upload)
  have sp2: "os_path_split refusing_lib ''uploads/report.csv'' = (''uploads'', ''report.csv'')"
    by (simp add: refusing_lib_def example_lib_def posix_split_upload)
  have cwd1: "ftp_cwd replacing_lib [Connect (Some ''host'') (Some 21) None] ''uploads''
                = Inr ''250 Directory changed.''"
    by (simp add: replacing_lib_def example_lib_def)
  have st1: "ftp_storbinary replacing_lib
               [Connect (Some ''host'') (Some 21) None, Cwd ''uploads''] ''STOR report.csv''
               \<lparr>contents = example_payload, pos = 0, closed = False\<rparr>
             = Inr ''226 Transfer complete.''"
    by (simp add: replacing_lib_def example_lib_def)
  have hk1: "\<And>hks. dispatch_hook replacing_lib ''response'' hks
               \<lparr>encoding = None, raw = \<lparr>contents = [], pos = 0, closed = False\<rparr>,
                response_url = url stor_request, request = stor_request,
                status_code = PyStr ''226''\<rparr>
             = Inr \<lparr>encoding = None,
                    raw = \<lparr>contents = ''not empty'', pos = 0, closed = False\<rparr>,
                    response_url = url stor_request, request = stor_request,
                    status_code = PyInt 500\<rparr>"
    by (simp add: replacing_lib_def)
  have cwd2: "ftp_cwd refusing_lib [Connect (Some ''host'') (Some 21) None] ''uploads''
                = Inl ''550 Failed to change directory.''"
    by (simp add: refusing_lib_def)
  have run1: "stor replacing_lib [Connect (Some ''host'') (Some 21) None] ''uploads/report.csv''
                stor_request
              = ([Connect (Some ''host'') (Some 21) None,
                  Cwd ''uploads'',
                  Storbinary ''STOR report.csv''
                    \<lparr>contents = example_payload, pos = 0, closed = False\<rparr>,
                  Close],
                 Inr \<lparr>encoding = None,
                      raw = \<lparr>contents = ''not empty'', pos = 0, closed = False\<rparr>,
                      response_url = url stor_request, request = stor_request,
                      status_code = PyInt 500\<rparr>)"
    by (simp add: stor_def data1 sp1 cwd1 st1 hk1 conn_defs build_binary_response_def
        build_response_def split_ws_226 buffer_seek_def BytesIO_def)
  have run2: "stor refusing_lib [Connect (Some ''host'') (Some 21) None] ''uploads/report.csv''
                stor_request
              = ([Connect (Some ''host'') (Some 21) None, Cwd ''uploads''],
                 Inl (TransportError ''550 Failed to change directory.''))"
    by (simp add: stor_def data2 sp2 cwd2 conn_defs)
  show ?thesis
    by (simp add: run1 run2)
qed

section \<open>The connection over one call of \<open>send\<close>\<close>

lemma func_table_closes:
  "func_table m = Some h \<Longrightarrow> h lib c pth req = (conn, Inr resp)
     \<Longrightarrow> count_list conn Close = count_list c Close + 1 \<and> last conn = Close"
  by (auto simp: func_table_def list_h_def nlst_def retr_def stor_def conn_defs
      split: if_splits sum.splits prod.splits)

text \<open>
  A listing or a download that raises, at whatever statement, has not closed the
  connection: the close is the handler's last statement.
\<close>

lemma failed_transfer_never_closes:
  assumes "h = list_h \<or> h = nlst \<or> h = retr"
    and "h lib c pth req = (conn, Inl e)"
  shows "count_list conn Close = count_list c Close"
  using assms
  by (auto simp: list_h_def nlst_def retr_def conn_defs split: sum.splits prod.splits)

text \<open>
  C3 (as amended). Whenever \<open>send\<close> returns a response, the connection it opened has
  been closed exactly once, and the close is the last call made on it.
\<close>

theorem send_success_closes_once:
  assumes "send lib req kwargs = (conn, Inr resp)"
  shows "count_list conn Close = 1 \<and> last conn = Close"
  using assms
  by (auto simp: send_def conn_connect_def conn_login_def
      split: sum.splits prod.splits option.splits dest!: func_table_closes)

text \<open>The theorem for a listing of \<open>pub\<close> on the example server.\<close>

theorem send_success_closes_once_witness:
  "send example_lib (example_request ''LIST'' ''ftp://host:21/pub'' Map.empty) Map.empty
     = ([Connect (Some ''host'') (Some 21) None, Cwd ''pub'', Retrbinary ''LIST'', Close],
        Inr \<lparr>encoding = Some ''ascii'',
             raw = \<lparr>contents = ''hello world'', pos = 0, closed = False\<rparr>,
             response_url = ''ftp://host:21/pub'',
             request = example_request ''LIST'' ''ftp://host:21/pub'' Map.empty,
             status_code = PyStr ''226''\<rparr>)
   \<and> count_list [Connect (Some ''host'') (Some 21) None, Cwd ''pub'', Retrbinary ''LIST'', Close]
         Close = 1
   \<and> last [Connect (Some ''host'') (Some 21) None, Cwd ''pub'', Retrbinary ''LIST'', Close]
       = Close"
  using send_list_example send_success_closes_once [OF send_list_example] by simp

text \<open>
  C3 as stated fails: when the server refuses the directory change of a listing, \<open>send\<close>
  ends with the transport error after \<open>connect\<close> and \<open>cwd\<close>, and the connection has not
  been closed.
\<close>

theorem failed_cwd_leaves_connection_open_counterexample:
  "fst (send refusing_lib (example_request ''LIST'' ''ftp://host:21/pub'' Map.empty) Map.empty)
     = [Connect (Some ''host'') (Some 21) None, Cwd ''pub'']
   \<and> snd (send refusing_lib (example_request ''LIST'' ''ftp://host:21/pub'' Map.empty) Map.empty)
     = Inl (TransportError ''550 Failed to change directory.'')
   \<and> count_list
         (fst (send refusing_lib (example_request ''LIST'' ''ftp://host:21/pub'' Map.empty)
                 Map.empty))
         Close = 0"
  by (simp add: send_def get_username_password_from_header_def get_host_and_path_from_url_def
      example_request_def example_lib_def refusing_lib_def urlparse_pub conn_defs func_table_def
      list_h_def)

section \<open>Requests without credentials\<close>

lemma func_table_no_login:
  "func_table m = Some h \<Longrightarrow> Login u p \<in> set (fst (h lib c pth req)) \<Longrightarrow> Login u p \<in> set c"
  by (auto simp: func_table_def list_h_def nlst_def retr_def stor_def conn_defs
      split: if_splits sum.splits prod.splits)

text \<open>
  Without an \<open>Authorization\<close> header the handler runs on a connection whose only call
  so far is \<open>connect\<close>.
\<close>

lemma send_without_credentials_dispatches_after_connect:
  assumes "headers req ''Authorization'' = None"
    and "get_host_and_path_from_url lib req = Inr (host, prt, pth)"
    and "ftp_connect lib [] host prt (case kwargs ''timeout'' of None \<Rightarrow> None | Some t \<Rightarrow> t)
           = Inr welcome"
    and "func_table (req_method req) = Some h"
  shows "send lib req kwargs
           = h lib [Connect host prt (case kwargs ''timeout'' of None \<Rightarrow> None | Some t \<Rightarrow> t)]
               pth req"
  using assms
  by (simp add: send_def get_username_password_from_header_def conn_connect_def)

text \<open>
  C4 (as amended). For a request with no \<open>Authorization\<close> header, credential extraction
  returns \<open>None\<close>, and \<open>send\<close> makes no \<open>login\<close> call at all on the connection it opens.
\<close>

theorem no_header_no_login:
  assumes "headers req ''Authorization'' = None"
  shows "get_username_password_from_header lib req = Inr None
         \<and> (\<forall>u p. Login u p \<notin> set (fst (send lib req kwargs)))"
proof
  show cred: "get_username_password_from_header lib req = Inr None"
    using assms by (simp add: get_username_password_from_header_def)
  show "\<forall>u p. Login u p \<notin> set (fst (send lib req kwargs))"
    by (auto simp: send_def cred conn_connect_def split: sum.splits prod.splits option.splits
        dest!: func_table_no_login)
qed

text \<open>The theorem for an anonymous download.\<close>

theorem no_header_no_login_witness:
  "headers (example_request ''RETR'' ''ftp://host:21/pub/readme.txt'' Map.empty) ''Authorization''
     = None
   \<and> get_username_password_from_header example_lib
        (example_request ''RETR'' ''ftp://host:21/pub/readme.txt'' Map.empty) = Inr None
   \<and> (\<forall>u p. Login u p \<notin> set (fst (send example_lib
          (example_request ''RETR'' ''ftp://host:21/pub/readme.txt'' Map.empty) Map.empty)))"
proof -
  have h: "headers (example_request ''RETR'' ''ftp://host:21/pub/readme.txt'' Map.empty)
             ''Authorization'' = None"
    by (simp add: example_request_def)
  from no_header_no_login [OF h, of example_lib Map.empty] h show ?thesis by simp
qed

text \<open>
  C4 as stated fails: an anonymous download succeeds with the calls \<open>connect\<close>,
  \<open>retrbinary\<close> and \<open>close\<close>; no login, anonymous or other, is among them.
\<close>

theorem anonymous_send_never_logs_in_counterexample:
  "get_username_password_from_header example_lib
     (example_request ''RETR'' ''ftp://host:21/pub/readme.txt'' Map.empty) = Inr None
   \<and> fst (send example_lib (example_request ''RETR'' ''ftp://host:21/pub/readme.txt'' Map.empty)
            Map.empty)
     = [Connect (Some ''host'') (Some 21) None, Retrbinary ''RETR pub/readme.txt'', Close]
   \<and> filter (\<lambda>ev. case ev of Login user passwd \<Rightarrow> True | _ \<Rightarrow> False)
        (fst (send example_lib (example_request ''RETR'' ''ftp://host:21/pub/readme.txt'' Map.empty)
                Map.empty))
     = []"
proof -
  have "get_username_password_from_header example_lib
     (example_request ''RETR'' ''ftp://host:21/pub/readme.txt'' Map.empty) = Inr None"
    by (simp add: get_username_password_from_header_def example_request_def)
  then show ?thesis
    by (simp add: send_retr_example)
qed

end
